theory Spec2Isabelle
  imports Complex_Main
begin

section \<open>Resampling of timestamped series: the model of \<open>utils.py\<close>\<close>

text \<open>
  The development embeds the two functions of \<open>utils.py\<close> that carry the
  resampling algorithm, \<open>identifyTimeIntervals\<close> and \<open>interpolate\<close>.

  A \<open>datetime\<close> is modelled by the integer number of microseconds it lies
  after the epoch (the resolution of Python's \<open>datetime\<close>), a
  \<open>timedelta\<close> by an integer number of microseconds. Comparison,
  subtraction of two datetimes and addition of a timedelta are then the
  integer operations. The calendar range of \<open>datetime\<close> (years 1 to 9999)
  is not modelled.
\<close>

subsection \<open>Exceptions\<close>

text \<open>
  The exceptions the two functions can end with. \<open>OtherError\<close> stands for
  any exception of the numeric libraries that is not a \<open>ValueError\<close>
  (only \<open>ValueError\<close> is caught by the source).
\<close>

datatype exn = AssertionError | IndexError | ValueError | OtherError

subsection \<open>\<open>identifyTimeIntervals\<close>\<close>

text \<open>
  \<open>timedelta(minutes=max_interval)\<close>, for the integer \<open>max_interval\<close> the
  command line supplies.
\<close>

definition timedelta_minutes :: "int \<Rightarrow> int" where
  "timedelta_minutes m = m * 60000000"

text \<open>
  One pass of the body of \<open>for i in range(1, len(times))\<close>. The loop state
  is the pair of the variables \<open>start\<close> (\<open>None\<close> or a time) and
  \<open>intervals\<close>; an interval \<open>[a, b]\<close> is the pair \<open>(a, b)\<close>.
\<close>

fun segment_step ::
  "int list \<Rightarrow> int \<Rightarrow> nat \<Rightarrow> int option \<times> (int \<times> int) list
     \<Rightarrow> int option \<times> (int \<times> int) list" where
  "segment_step tms mi i (start, intervals) =
     (if tms ! i - tms ! (i - 1) \<le> mi then
        (if start = None then (Some (tms ! (i - 1)), intervals)
         else (start, intervals))
      else
        (case start of
           Some s \<Rightarrow> (None, intervals @ [(s, tms ! (i - 1))])
         | None \<Rightarrow> (start, intervals)))"

text \<open>
  The whole function. \<open>times[0]\<close> raises \<open>IndexError\<close> on the empty list,
  both in the first \<open>return\<close> and in the final test \<open>start == times[0]\<close>
  (the loop itself does not run on a list shorter than two).
\<close>

definition identifyTimeIntervals ::
  "int list \<Rightarrow> int option \<Rightarrow> exn + (int \<times> int) list" where
  "identifyTimeIntervals tms max_interval =
     (case max_interval of
        None \<Rightarrow>
          (if tms = [] then Inl IndexError
           else Inr [(hd tms, last tms)])
      | Some m \<Rightarrow>
          (let mi = timedelta_minutes m;
               (start, intervals) =
                 fold (segment_step tms mi) [1..<length tms] (None, [])
           in if tms = [] then Inl IndexError
              else if start = Some (hd tms) then Inr [(hd tms, last tms)]
              else Inr intervals))"

text \<open>The time \<open>k\<close> minutes after the epoch.\<close>

definition minute :: "int \<Rightarrow> int" where
  "minute k = k * 60000000"

subsection \<open>The numeric libraries\<close>

text \<open>
  \<open>interpolate\<close> calls three constructors of SciPy, \<open>BSpline\<close>,
  \<open>interp1d\<close> and \<open>UnivariateSpline\<close>, each with an array of
  abscissae, an array of values and the order, and evaluates the fitted
  function on an array. These are not code of the repository: they are
  parameters of the model. A fitted function is evaluated point by point;
  construction and evaluation may raise.

  The values of the series are of an arbitrary type \<open>'v\<close> with a zero
  (\<open>np.zeros\<close>); the abscissae handed to the library are the results of
  \<open>datetime.timestamp()\<close>, seconds as a number, taken here as exact
  rationals.
\<close>

type_synonym 'v curve = "rat \<Rightarrow> exn + 'v"

type_synonym 'v constructor = "rat list \<Rightarrow> 'v list \<Rightarrow> int \<Rightarrow> exn + 'v curve"

text \<open>
  The last field is the branch of \<open>interpolate\<close> for an axis of plain
  numbers, from \<open>np.arange\<close> to \<open>func(x_interp)\<close>: array arithmetic of
  NumPy throughout, taken as a parameter as well. Its arguments are
  \<open>x_vals\<close>, \<open>y_vals\<close>, \<open>order\<close>, \<open>delta\<close>, \<open>keep_old\<close> and
  \<open>interpolation_mode\<close>, its result \<open>x_interp\<close> and \<open>y_interp\<close>.
\<close>

record 'v numlib =
  BSpline :: "'v constructor"
  interp1d :: "'v constructor"
  UnivariateSpline :: "'v constructor"
  number_axis ::
    "rat list \<Rightarrow> 'v list \<Rightarrow> int \<Rightarrow> int \<Rightarrow> bool \<Rightarrow> string
       \<Rightarrow> exn + rat list \<times> 'v list"

subsection \<open>Arrays\<close>

text \<open>\<open>datetime.timestamp()\<close>: seconds since the epoch.\<close>

definition timestamp :: "int \<Rightarrow> rat" where
  "timestamp t = of_int t / 1000000"

text \<open>
  \<open>a[mask]\<close> for a boolean array \<open>mask\<close>. NumPy raises \<open>IndexError\<close>
  when the mask and the array differ in length.
\<close>

definition mask_select :: "bool list \<Rightarrow> 'a list \<Rightarrow> 'a list" where
  "mask_select msk xs = map snd (filter fst (zip msk xs))"

definition np_select :: "bool list \<Rightarrow> 'a list \<Rightarrow> exn + 'a list" where
  "np_select msk xs =
     (if length msk \<noteq> length xs then Inl IndexError
      else Inr (mask_select msk xs))"

text \<open>
  \<open>a[mask] = vals\<close>: the entries of \<open>a\<close> at the true positions of
  \<open>mask\<close> are replaced, in order, by the entries of \<open>vals\<close>. In
  \<open>interpolate\<close> the array and the mask have the same length and
  \<open>vals\<close> has one entry for each true position.
\<close>

fun np_assign :: "bool list \<Rightarrow> 'a list \<Rightarrow> 'a list \<Rightarrow> 'a list" where
  "np_assign (True # msk) (a # as) (v # vals) = v # np_assign msk as vals"
| "np_assign (False # msk) (a # as) vals = a # np_assign msk as vals"
| "np_assign msk as vals = as"

text \<open>\<open>func(xs)\<close> for a fitted function: the first failing point raises.\<close>

fun eval_curve :: "'v curve \<Rightarrow> rat list \<Rightarrow> exn + 'v list" where
  "eval_curve func [] = Inr []"
| "eval_curve func (x # xs) =
     (case func x of
        Inl e \<Rightarrow> Inl e
      | Inr v \<Rightarrow>
          (case eval_curve func xs of
             Inl e \<Rightarrow> Inl e
           | Inr vs \<Rightarrow> Inr (v # vs)))"

subsection \<open>\<open>interpolate\<close>: the grid\<close>

text \<open>
  \<open>while x_interp[-1] + delta <= x_vals[-1]: x_interp.append(x_interp[-1] + delta)\<close>.
  The loop need not terminate: \<open>None\<close> is the run that never returns.
\<close>

partial_function (option) grid_loop :: "int \<Rightarrow> int \<Rightarrow> int list \<Rightarrow> int list option" where
  "grid_loop delta x_last x_interp =
     (if last x_interp + delta \<le> x_last
      then grid_loop delta x_last (x_interp @ [last x_interp + delta])
      else Some x_interp)"

text \<open>
  Lines 192 to 198, for a non-empty \<open>x_vals\<close>: the loop from
  \<open>[x_vals[0]]\<close>, then \<open>sorted(list(set(x_interp + x_vals)))\<close> when
  \<open>keep_old\<close> is set.
\<close>

definition build_grid :: "int list \<Rightarrow> int \<Rightarrow> bool \<Rightarrow> int list option" where
  "build_grid x_vals delta keep_old =
     (case grid_loop delta (last x_vals) [hd x_vals] of
        None \<Rightarrow> None
      | Some x_interp \<Rightarrow>
          Some (if keep_old then sort (remdups (x_interp @ x_vals)) else x_interp))"

subsection \<open>\<open>interpolate\<close>: the fit of one interval\<close>

text \<open>The \<open>if\<close>/\<open>elif\<close> chain that selects the constructor.\<close>

definition fit_method :: "'v numlib \<Rightarrow> string \<Rightarrow> 'v constructor" where
  "fit_method lib interpolation_mode xs ys order =
     (if interpolation_mode = ''bspline'' then BSpline lib xs ys order
      else if interpolation_mode = ''interp1d'' then interp1d lib xs ys order
      else if interpolation_mode = ''univ'' then UnivariateSpline lib xs ys order
      else Inl OtherError)"

text \<open>\<open>np.logical_and(np.array(xs) >= t[0], np.array(xs) <= t[-1])\<close>.\<close>

definition in_interval :: "int \<times> int \<Rightarrow> int list \<Rightarrow> bool list" where
  "in_interval t xs = map (\<lambda>x. fst t \<le> x \<and> x \<le> snd t) xs"

text \<open>
  The statements of the \<open>try\<close> block up to the evaluation of the fitted
  function (lines 221 to 234): the masks \<open>inds\<close> and \<open>inds_interp\<close> and
  the values \<open>func(x_interp_unix[inds_interp])\<close>. Every statement that can
  raise comes before the first assignment to \<open>y_interp\<close>.
\<close>

definition interval_fit ::
  "'v numlib \<Rightarrow> string \<Rightarrow> int \<Rightarrow> int list \<Rightarrow> 'v list \<Rightarrow> int list \<Rightarrow> int \<times> int
     \<Rightarrow> exn + bool list \<times> bool list \<times> 'v list" where
  "interval_fit lib interpolation_mode order x_vals y_vals x_interp t =
     (let inds = in_interval t x_vals in
      case np_select inds y_vals of
        Inl e \<Rightarrow> Inl e
      | Inr ys \<Rightarrow>
          (case fit_method lib interpolation_mode
                  (mask_select inds (map timestamp x_vals)) ys order of
             Inl e \<Rightarrow> Inl e
           | Inr func \<Rightarrow>
               (let inds_interp = in_interval t x_interp in
                case eval_curve func
                       (mask_select inds_interp (map timestamp x_interp)) of
                  Inl e \<Rightarrow> Inl e
                | Inr vals \<Rightarrow> Inr (inds, inds_interp, vals))))"

text \<open>
  One pass of \<open>for t in time_intervals\<close> on the state \<open>y_interp\<close>,
  \<open>valid_inds\<close>, \<open>valid_inds_interp\<close>: the assignments after a
  successful fit; on \<open>ValueError\<close> the interval is skipped and the state
  is as before; any other exception leaves the function.
\<close>

fun fit_interval ::
  "'v numlib \<Rightarrow> string \<Rightarrow> int \<Rightarrow> int list \<Rightarrow> 'v list \<Rightarrow> int list \<Rightarrow> int \<times> int
     \<Rightarrow> 'v list \<times> bool list \<times> bool list
     \<Rightarrow> exn + 'v list \<times> bool list \<times> bool list" where
  "fit_interval lib interpolation_mode order x_vals y_vals x_interp t
       (y_interp, valid_inds, valid_inds_interp) =
     (case interval_fit lib interpolation_mode order x_vals y_vals x_interp t of
        Inl ValueError \<Rightarrow> Inr (y_interp, valid_inds, valid_inds_interp)
      | Inl e \<Rightarrow> Inl e
      | Inr (inds, inds_interp, vals) \<Rightarrow>
          Inr (np_assign inds_interp y_interp vals,
               map2 (\<or>) valid_inds inds,
               map2 (\<or>) valid_inds_interp inds_interp))"

text \<open>The loop over the intervals; an exception ends it.\<close>

fun fit_intervals ::
  "'v numlib \<Rightarrow> string \<Rightarrow> int \<Rightarrow> int list \<Rightarrow> 'v list \<Rightarrow> int list \<Rightarrow> (int \<times> int) list
     \<Rightarrow> 'v list \<times> bool list \<times> bool list
     \<Rightarrow> exn + 'v list \<times> bool list \<times> bool list" where
  "fit_intervals lib interpolation_mode order x_vals y_vals x_interp [] st = Inr st"
| "fit_intervals lib interpolation_mode order x_vals y_vals x_interp (t # ts) st =
     (case fit_interval lib interpolation_mode order x_vals y_vals x_interp t st of
        Inl e \<Rightarrow> Inl e
      | Inr st' \<Rightarrow>
          fit_intervals lib interpolation_mode order x_vals y_vals x_interp ts st')"

subsection \<open>\<open>interpolate\<close>: the linear fit of what is left\<close>

text \<open>
  Lines 247 to 249: the linear \<open>interp1d\<close> through all samples, evaluated
  at the grid points whose bit of \<open>valid_inds_interp\<close> is false.
\<close>

definition fill_gaps ::
  "'v numlib \<Rightarrow> int list \<Rightarrow> 'v list \<Rightarrow> int list \<Rightarrow> 'v list \<Rightarrow> bool list
     \<Rightarrow> exn + 'v list" where
  "fill_gaps lib x_vals y_vals x_interp y_interp valid_inds_interp =
     (case interp1d lib (map timestamp x_vals) y_vals 1 of
        Inl e \<Rightarrow> Inl e
      | Inr func \<Rightarrow>
          (let todo = map Not valid_inds_interp in
           case eval_curve func (mask_select todo (map timestamp x_interp)) of
             Inl e \<Rightarrow> Inl e
           | Inr vals \<Rightarrow> Inr (np_assign todo y_interp vals)))"

subsection \<open>\<open>interpolate\<close>\<close>

text \<open>
  \<open>[i for i, x in enumerate(x_interp) if x not in x_set]\<close>, the indices
  of the grid points that are not times of the series.
\<close>

definition interpolated_indices :: "'a list \<Rightarrow> 'a list \<Rightarrow> nat list" where
  "interpolated_indices x_vals x_interp =
     map fst (filter (\<lambda>(i, x). x \<notin> set x_vals) (enumerate 0 x_interp))"

text \<open>
  The axis of a series: a list of datetimes or a list of plain numbers. The
  source looks at \<open>x_vals[0]\<close> only to tell them apart.
\<close>

datatype axis = DatetimeAxis "int list" | NumberAxis "rat list"

text \<open>
  The datetime branch once the grid is built: lines 201 to 252 and the
  common end, lines 278 to 281.
\<close>

definition interpolate_on_grid ::
  "'v::zero numlib \<Rightarrow> int list \<Rightarrow> 'v list \<Rightarrow> int \<Rightarrow> string \<Rightarrow> int option \<Rightarrow> int list
     \<Rightarrow> exn + axis \<times> 'v list \<times> nat list" where
  "interpolate_on_grid lib x_vals y_vals order interpolation_mode max_interval x_interp =
     (let y_interp = replicate (length x_interp) 0 in
      case identifyTimeIntervals x_vals max_interval of
        Inl e \<Rightarrow> Inl e
      | Inr time_intervals \<Rightarrow>
          (let valid_inds = replicate (length x_vals) False;
               valid_inds_interp = replicate (length x_interp) False in
           case fit_intervals lib interpolation_mode order x_vals y_vals x_interp
                  time_intervals (y_interp, valid_inds, valid_inds_interp) of
             Inl e \<Rightarrow> Inl e
           | Inr (y_interp, valid_inds, valid_inds_interp) \<Rightarrow>
               (case fill_gaps lib x_vals y_vals x_interp y_interp valid_inds_interp of
                  Inl e \<Rightarrow> Inl e
                | Inr y_interp \<Rightarrow>
                    Inr (DatetimeAxis x_interp, y_interp,
                         interpolated_indices x_vals x_interp))))"

text \<open>
  The function. The result is \<open>None\<close> when the call does not return,
  otherwise the exception raised or the triple \<open>x_interp\<close>,
  \<open>y_interp\<close>, \<open>inds_interp\<close>.
\<close>

definition interpolate ::
  "'v::zero numlib \<Rightarrow> axis \<Rightarrow> 'v list \<Rightarrow> int \<Rightarrow> int \<Rightarrow> bool \<Rightarrow> string \<Rightarrow> int option
     \<Rightarrow> (exn + axis \<times> 'v list \<times> nat list) option" where
  "interpolate lib x_vals y_vals order delta keep_old interpolation_mode max_interval =
     (if interpolation_mode \<notin> set [''bspline'', ''interp1d'', ''univ'']
      then Some (Inl AssertionError)
      else
        (case x_vals of
           DatetimeAxis xs \<Rightarrow>
             (if xs = [] then Some (Inl IndexError)
              else
                (case build_grid xs delta keep_old of
                   None \<Rightarrow> None
                 | Some x_interp \<Rightarrow>
                     Some (interpolate_on_grid lib xs y_vals order
                             interpolation_mode max_interval x_interp)))
         | NumberAxis xs \<Rightarrow>
             (if xs = [] then Some (Inl IndexError)
              else if max_interval \<noteq> None then Some (Inl AssertionError)
              else
                (case number_axis lib xs y_vals order delta keep_old interpolation_mode of
                   Inl e \<Rightarrow> Some (Inl e)
                 | Inr (x_interp, y_interp) \<Rightarrow>
                     Some (Inr (NumberAxis x_interp, y_interp,
                                interpolated_indices xs x_interp))))))"

subsection \<open>Notions for the statements about \<open>interpolate\<close>\<close>




subsection \<open>The points of the regular grid\<close>


subsection \<open>An instance of the libraries\<close>

text \<open>
  A small executable instance of the library parameters over the rationals,
  for evaluating \<open>interpolate\<close> on concrete series. It follows SciPy on
  the calls made below and raises \<open>OtherError\<close> where it does not model
  the library.

  \<open>linear_curve\<close> is the piecewise-linear function through the given
  points, with abscissae in increasing order; outside their range
  \<open>interp1d\<close> raises \<open>ValueError\<close> (\<open>bounds_error\<close>).
\<close>

fun linear_curve :: "rat list \<Rightarrow> rat list \<Rightarrow> rat curve" where
  "linear_curve (x0 # x1 # xs) (y0 # y1 # ys) x =
     (if x < x0 then Inl ValueError
      else if x \<le> x1 then Inr (y0 + (y1 - y0) * (x - x0) / (x1 - x0))
      else linear_curve (x1 # xs) (y1 # ys) x)"
| "linear_curve xs ys x = Inl ValueError"

text \<open>
  \<open>interp1d(x, y, kind=k)\<close> raises \<open>ValueError\<close> on arrays of different
  lengths and on fewer than \<open>k + 1\<close> points; the instance models the
  linear kind.
\<close>

definition interp1d_linear :: "rat constructor" where
  "interp1d_linear xs ys k =
     (if length xs \<noteq> length ys then Inl ValueError
      else if int (length xs) < k + 1 then Inl ValueError
      else if k = 1 then Inr (linear_curve xs ys)
      else Inl OtherError)"

text \<open>
  \<open>UnivariateSpline(x, y, k=k)\<close> is a smoothing spline with the default
  smoothing factor \<open>s = len(x)\<close>: when the sum of the squared residuals of
  the least-squares polynomial of degree \<open>k\<close> is at most \<open>s\<close>, that
  polynomial is the result. The instance models this case for \<open>k = 1\<close>.
\<close>

definition lsq_slope :: "rat list \<Rightarrow> rat list \<Rightarrow> rat" where
  "lsq_slope xs ys =
     (of_nat (length xs) * sum_list (map2 (*) xs ys) - sum_list xs * sum_list ys)
       / (of_nat (length xs) * sum_list (map2 (*) xs xs) - sum_list xs * sum_list xs)"

definition lsq_intercept :: "rat list \<Rightarrow> rat list \<Rightarrow> rat" where
  "lsq_intercept xs ys =
     (sum_list ys - lsq_slope xs ys * sum_list xs) / of_nat (length xs)"

definition lsq_line :: "rat list \<Rightarrow> rat list \<Rightarrow> rat \<Rightarrow> rat" where
  "lsq_line xs ys x = lsq_intercept xs ys + lsq_slope xs ys * x"

definition lsq_residual :: "rat list \<Rightarrow> rat list \<Rightarrow> rat" where
  "lsq_residual xs ys =
     sum_list (map2 (\<lambda>x y. (y - lsq_line xs ys x) * (y - lsq_line xs ys x)) xs ys)"

definition univariate_smoothing :: "rat constructor" where
  "univariate_smoothing xs ys k =
     (if k = 1 \<and> length xs = length ys \<and> 2 \<le> length xs \<and> distinct xs
         \<and> lsq_residual xs ys \<le> of_nat (length xs)
      then Inr (\<lambda>x. Inr (lsq_line xs ys x))
      else Inl OtherError)"

definition reference_lib :: "rat numlib" where
  "reference_lib =
     \<lparr> BSpline = (\<lambda>xs ys k. Inl OtherError),
       interp1d = interp1d_linear,
       UnivariateSpline = univariate_smoothing,
       number_axis = (\<lambda>xs ys order delta keep_old interpolation_mode. Inl OtherError) \<rparr>"

section \<open>The two functions on a store of lists\<close>

text \<open>
  Python passes lists by reference, and \<open>list.append\<close> and the masked
  assignment of NumPy change an object in place. To state what a call does
  to the lists of its caller, the two functions are embedded a second time
  on an explicit store: a list of objects, an address being an index into
  it. Every statement of the source that builds a list or an array
  allocates a new object; \<open>append\<close> and \<open>a[mask] = vals\<close> replace the
  object at the address of their target. What the lists contain is
  computed with the functions of the first embedding.
\<close>

datatype 'v obj =
    Datetimes "int list"
  | Numbers "rat list"
  | Values "'v list"
  | Flags "bool list"
  | Intervals "(int \<times> int) list"
  | Indices "nat list"

type_synonym 'v store = "'v obj list"

type_synonym addr = nat

fun datetimes_of :: "'v obj \<Rightarrow> int list" where
  "datetimes_of (Datetimes xs) = xs"
| "datetimes_of ob = []"

fun values_of :: "'v obj \<Rightarrow> 'v list" where
  "values_of (Values ys) = ys"
| "values_of ob = []"

fun flags_of :: "'v obj \<Rightarrow> bool list" where
  "flags_of (Flags bs) = bs"
| "flags_of ob = []"

fun intervals_of :: "'v obj \<Rightarrow> (int \<times> int) list" where
  "intervals_of (Intervals ts) = ts"
| "intervals_of ob = []"

text \<open>A new object, at the next free address.\<close>

definition alloc :: "'v obj \<Rightarrow> 'v store \<Rightarrow> addr \<times> 'v store" where
  "alloc ob s = (length s, s @ [ob])"

text \<open>The object at an address changed in place.\<close>

definition put :: "addr \<Rightarrow> 'v obj \<Rightarrow> 'v store \<Rightarrow> 'v store" where
  "put a ob s = s[a := ob]"

subsection \<open>\<open>identifyTimeIntervals\<close> on the store\<close>

text \<open>
  The body of the loop; \<open>tms_a\<close> is the address of the parameter
  \<open>times\<close>, \<open>ia\<close> that of the local list \<open>intervals\<close>, to which
  \<open>intervals.append\<close> adds in place.
\<close>

fun segment_step_st ::
  "addr \<Rightarrow> addr \<Rightarrow> int \<Rightarrow> nat \<Rightarrow> int option \<times> 'v store \<Rightarrow> int option \<times> 'v store" where
  "segment_step_st tms_a ia mi i (start, s) =
     (let tms = datetimes_of (s ! tms_a) in
      if tms ! i - tms ! (i - 1) \<le> mi then
        (if start = None then (Some (tms ! (i - 1)), s) else (start, s))
      else
        (case start of
           Some st \<Rightarrow>
             (None, put ia (Intervals (intervals_of (s ! ia) @ [(st, tms ! (i - 1))])) s)
         | None \<Rightarrow> (start, s)))"

text \<open>
  The function: the result is the exception or the address of the returned
  list, with the store the call leaves.
\<close>

definition identifyTimeIntervals_st ::
  "'v store \<Rightarrow> addr \<Rightarrow> int option \<Rightarrow> (exn + addr) \<times> 'v store" where
  "identifyTimeIntervals_st s tms_a max_interval =
     (case max_interval of
        None \<Rightarrow>
          (if datetimes_of (s ! tms_a) = [] then (Inl IndexError, s)
           else
             (let (r, s1) = alloc (Intervals [(hd (datetimes_of (s ! tms_a)),
                                              last (datetimes_of (s ! tms_a)))]) s
              in (Inr r, s1)))
      | Some m \<Rightarrow>
          (let mi = timedelta_minutes m;
               (ia, s1) = alloc (Intervals []) s;
               (start, s2) =
                 fold (segment_step_st tms_a ia mi)
                   [1..<length (datetimes_of (s1 ! tms_a))] (None, s1)
           in if datetimes_of (s2 ! tms_a) = [] then (Inl IndexError, s2)
              else if start = Some (hd (datetimes_of (s2 ! tms_a))) then
                (let (r, s3) = alloc (Intervals [(hd (datetimes_of (s2 ! tms_a)),
                                                 last (datetimes_of (s2 ! tms_a)))]) s2
                 in (Inr r, s3))
              else (Inr ia, s2)))"

subsection \<open>\<open>interpolate\<close> on the store\<close>

text \<open>
  The loop of the grid: \<open>x_interp.append\<close> changes the list at \<open>xi_a\<close>
  in place; \<open>x_vals[-1]\<close> is read at \<open>x_a\<close> in every pass.
\<close>

partial_function (option) grid_loop_st ::
  "int \<Rightarrow> addr \<Rightarrow> addr \<Rightarrow> 'v store \<Rightarrow> 'v store option" where
  "grid_loop_st delta x_a xi_a s =
     (if last (datetimes_of (s ! xi_a)) + delta \<le> last (datetimes_of (s ! x_a))
      then grid_loop_st delta x_a xi_a
             (put xi_a (Datetimes (datetimes_of (s ! xi_a)
                                     @ [last (datetimes_of (s ! xi_a)) + delta])) s)
      else Some s)"

text \<open>
  One pass of the loop over the intervals. \<open>x_a\<close> is the address of the
  parameter \<open>x_vals\<close>, \<open>yv_a\<close> that of the local array
  \<open>y_vals = np.array(y_vals)\<close>, \<open>xi_a\<close> and \<open>yi_a\<close> those of
  \<open>x_interp\<close> and \<open>y_interp\<close>. The state of the loop is the store with
  the addresses that the names \<open>valid_inds\<close> and \<open>valid_inds_interp\<close>
  are bound to: \<open>np.logical_or\<close> builds a new array each time, the masked
  assignment changes \<open>y_interp\<close> in place. An exception other than
  \<open>ValueError\<close> leaves the function with the store as it is.
\<close>

fun fit_interval_st ::
  "'v numlib \<Rightarrow> string \<Rightarrow> int \<Rightarrow> addr \<Rightarrow> addr \<Rightarrow> addr \<Rightarrow> addr \<Rightarrow> int \<times> int
     \<Rightarrow> 'v store \<times> addr \<times> addr \<Rightarrow> exn \<times> 'v store + 'v store \<times> addr \<times> addr" where
  "fit_interval_st lib interpolation_mode order x_a yv_a xi_a yi_a t (s, vi_a, vii_a) =
     (case interval_fit lib interpolation_mode order (datetimes_of (s ! x_a))
             (values_of (s ! yv_a)) (datetimes_of (s ! xi_a)) t of
        Inl ValueError \<Rightarrow> Inr (s, vi_a, vii_a)
      | Inl e \<Rightarrow> Inl (e, s)
      | Inr (inds, inds_interp, vals) \<Rightarrow>
          (let s1 = put yi_a (Values (np_assign inds_interp (values_of (s ! yi_a)) vals)) s;
               (vi_a', s2) = alloc (Flags (map2 (\<or>) (flags_of (s1 ! vi_a)) inds)) s1;
               (vii_a', s3) =
                 alloc (Flags (map2 (\<or>) (flags_of (s2 ! vii_a)) inds_interp)) s2
           in Inr (s3, vi_a', vii_a')))"

fun fit_intervals_st ::
  "'v numlib \<Rightarrow> string \<Rightarrow> int \<Rightarrow> addr \<Rightarrow> addr \<Rightarrow> addr \<Rightarrow> addr \<Rightarrow> (int \<times> int) list
     \<Rightarrow> 'v store \<times> addr \<times> addr \<Rightarrow> exn \<times> 'v store + 'v store \<times> addr \<times> addr" where
  "fit_intervals_st lib interpolation_mode order x_a yv_a xi_a yi_a [] st = Inr st"
| "fit_intervals_st lib interpolation_mode order x_a yv_a xi_a yi_a (t # ts) st =
     (case fit_interval_st lib interpolation_mode order x_a yv_a xi_a yi_a t st of
        Inl r \<Rightarrow> Inl r
      | Inr st' \<Rightarrow>
          fit_intervals_st lib interpolation_mode order x_a yv_a xi_a yi_a ts st')"

text \<open>
  Lines 197 to 209, on the store \<open>s\<close> in which \<open>xi_a0\<close> is the
  address of the list the loop has built: the name \<open>x_interp\<close> is bound
  to a new sorted list when \<open>keep_old\<close> is set, and the arrays
  \<open>y_interp\<close>, \<open>x_unix\<close>, \<open>x_interp_unix\<close> and the local
  \<open>y_vals = np.array(y_vals)\<close> are built. The result is the addresses of
  \<open>x_interp\<close>, \<open>y_interp\<close> and the local \<open>y_vals\<close>.
\<close>

definition allocate_arrays_st ::
  "'v::zero store \<Rightarrow> addr \<Rightarrow> addr \<Rightarrow> bool \<Rightarrow> addr \<Rightarrow> (addr \<times> addr \<times> addr) \<times> 'v store" where
  "allocate_arrays_st s x_a y_a keep_old xi_a0 =
     (let (xi_a, s1) =
            (if keep_old
             then alloc (Datetimes (sort (remdups (datetimes_of (s ! xi_a0)
                                                    @ datetimes_of (s ! x_a))))) s
             else (xi_a0, s));
          (yi_a, s2) = alloc (Values (replicate (length (datetimes_of (s1 ! xi_a))) 0)) s1;
          (xu_a, s3) = alloc (Numbers (map timestamp (datetimes_of (s2 ! x_a)))) s2;
          (xiu_a, s4) = alloc (Numbers (map timestamp (datetimes_of (s3 ! xi_a)))) s3;
          (yv_a, s5) = alloc (Values (values_of (s4 ! y_a))) s4
      in ((xi_a, yi_a, yv_a), s5))"

text \<open>
  Lines 249 to 281 once the linear fit has given the values \<open>y_interp\<close>:
  the masked assignment changes the array at \<open>yi_a\<close> in place;
  \<open>list(y_interp)\<close>, \<open>inds_interp\<close>, \<open>list(x_interp)\<close> and the
  second \<open>list(y_interp)\<close> are new lists. The result is the addresses of
  the three returned lists.
\<close>

definition return_lists_st ::
  "'v store \<Rightarrow> addr \<Rightarrow> addr \<Rightarrow> addr \<Rightarrow> 'v list \<Rightarrow> (addr \<times> addr \<times> addr) \<times> 'v store" where
  "return_lists_st s x_a xi_a yi_a y_interp =
     (let s1 = put yi_a (Values y_interp) s;
          (yl_a, s2) = alloc (Values (values_of (s1 ! yi_a))) s1;
          (ii_a, s3) =
            alloc (Indices (interpolated_indices (datetimes_of (s2 ! x_a))
                              (datetimes_of (s2 ! xi_a)))) s2;
          (xl_a, s4) = alloc (Datetimes (datetimes_of (s3 ! xi_a))) s3;
          (yr_a, s5) = alloc (Values (values_of (s4 ! yl_a))) s4
      in ((xl_a, yr_a, ii_a), s5))"

text \<open>
  The datetime branch after the loop of the grid: the arrays, the call of
  \<open>identifyTimeIntervals\<close>, the two masks, the loop over the intervals,
  the linear fit and the returned lists.
\<close>

definition interpolate_on_grid_st ::
  "'v::zero numlib \<Rightarrow> 'v store \<Rightarrow> addr \<Rightarrow> addr \<Rightarrow> int \<Rightarrow> bool \<Rightarrow> string \<Rightarrow> int option
     \<Rightarrow> addr \<Rightarrow> (exn + addr \<times> addr \<times> addr) \<times> 'v store" where
  "interpolate_on_grid_st lib s x_a y_a order keep_old interpolation_mode max_interval xi_a0 =
     (case allocate_arrays_st s x_a y_a keep_old xi_a0 of
        ((xi_a, yi_a, yv_a), s5) \<Rightarrow>
          (case identifyTimeIntervals_st s5 x_a max_interval of
             (Inl e, s6) \<Rightarrow> (Inl e, s6)
           | (Inr ti_a, s6) \<Rightarrow>
               (let (vi_a, s7) =
                      alloc (Flags (replicate (length (datetimes_of (s6 ! x_a))) False)) s6;
                    (vii_a, s8) =
                      alloc (Flags (replicate (length (datetimes_of (s7 ! xi_a))) False)) s7
                in case fit_intervals_st lib interpolation_mode order x_a yv_a xi_a yi_a
                          (intervals_of (s8 ! ti_a)) (s8, vi_a, vii_a) of
                     Inl (e, s9) \<Rightarrow> (Inl e, s9)
                   | Inr (s9, vi_a', vii_a') \<Rightarrow>
                       (case fill_gaps lib (datetimes_of (s9 ! x_a)) (values_of (s9 ! yv_a))
                               (datetimes_of (s9 ! xi_a)) (values_of (s9 ! yi_a))
                               (flags_of (s9 ! vii_a')) of
                          Inl e \<Rightarrow> (Inl e, s9)
                        | Inr y_interp \<Rightarrow>
                            (case return_lists_st s9 x_a xi_a yi_a y_interp of
                               (r, s10) \<Rightarrow> (Inr r, s10))))))"

text \<open>
  The function, for \<open>x_vals\<close> at the address \<open>x_a\<close> and \<open>y_vals\<close> at
  \<open>y_a\<close>. A list of datetimes is a \<open>Datetimes\<close> object, a list of plain
  numbers a \<open>Numbers\<close> object. In the branch of the plain numbers the
  contents of the two lists are handed to the array library, whose
  functions are taken not to change their arguments, and the results are
  new objects.
\<close>

definition interpolate_st ::
  "'v::zero numlib \<Rightarrow> 'v store \<Rightarrow> addr \<Rightarrow> addr \<Rightarrow> int \<Rightarrow> int \<Rightarrow> bool \<Rightarrow> string
     \<Rightarrow> int option \<Rightarrow> ((exn + addr \<times> addr \<times> addr) \<times> 'v store) option" where
  "interpolate_st lib s x_a y_a order delta keep_old interpolation_mode max_interval =
     (if interpolation_mode \<notin> set [''bspline'', ''interp1d'', ''univ'']
      then Some (Inl AssertionError, s)
      else
        (case s ! x_a of
           Numbers xs \<Rightarrow>
             (if xs = [] then Some (Inl IndexError, s)
              else if max_interval \<noteq> None then Some (Inl AssertionError, s)
              else
                (case number_axis lib xs (values_of (s ! y_a)) order delta keep_old
                        interpolation_mode of
                   Inl e \<Rightarrow> Some (Inl e, s)
                 | Inr (x_interp, y_interp) \<Rightarrow>
                     (let (ii_a, s1) = alloc (Indices (interpolated_indices xs x_interp)) s;
                          (xl_a, s2) = alloc (Numbers x_interp) s1;
                          (yl_a, s3) = alloc (Values y_interp) s2
                      in Some (Inr (xl_a, yl_a, ii_a), s3))))
         | ob \<Rightarrow>
             (if datetimes_of ob = [] then Some (Inl IndexError, s)
              else
                (let (xi_a, s1) = alloc (Datetimes [hd (datetimes_of (s ! x_a))]) s
                 in case grid_loop_st delta x_a xi_a s1 of
                      None \<Rightarrow> None
                    | Some s2 \<Rightarrow>
                        Some (interpolate_on_grid_st lib s2 x_a y_a order keep_old
                                interpolation_mode max_interval xi_a)))))"

text \<open>
  The second store keeps every object the first one has: nothing below
  the address \<open>n\<close> has changed and no object has gone.
\<close>

definition same_below :: "nat \<Rightarrow> 'v store \<Rightarrow> 'v store \<Rightarrow> bool" where
  "same_below n s s' = (length s \<le> length s' \<and> (\<forall>a<n. s' ! a = s ! a))"

section \<open>Properties of \<open>identifyTimeIntervals\<close>\<close>



text \<open>
  Claim C1, at the scenario of the specification: samples at minutes
  0, 1, 2, 10, 11, 12 with a maximum gap of 5 minutes. The run from minute 10
  to minute 12 is still open when the loop ends and is not appended: the
  function returns the single interval from minute 0 to minute 2.
\<close>

theorem identifyTimeIntervals_drops_final_run:
  "identifyTimeIntervals (map minute [0, 1, 2, 10, 11, 12]) (Some 5)
     = Inr [(minute 0, minute 2)]"
  by (simp add: identifyTimeIntervals_def timedelta_minutes_def minute_def
      upt_conv_Cons)




section \<open>The grid\<close>



lemma grid_loop_never_returns:
  assumes "delta \<le> 0" and "last x_interp \<le> x_last"
  shows "grid_loop delta x_last x_interp = None"
proof -
  have "\<not> (delta \<le> 0 \<and> last x_interp \<le> x_last)"
    if "grid_loop delta x_last x_interp = Some ys" for ys
  proof (rule grid_loop.raw_induct
          [where P = "\<lambda>d l xs ys. \<not> (d \<le> 0 \<and> last xs \<le> l)", OF _ that],
         goal_cases)
    case (1 f d l xs ys)
    show ?case
    proof
      assume a: "d \<le> 0 \<and> last xs \<le> l"
      then have "last xs + d \<le> l" by simp
      with 1(2) have "f d l (xs @ [last xs + d]) = Some ys" by simp
      from 1(1) [OF this] a show False by simp
    qed
  qed
  with assms show ?thesis by (cases "grid_loop delta x_last x_interp") auto
qed











section \<open>Configuration and input checks of \<open>interpolate\<close>\<close>

text \<open>
  Claim C4 as stated fails: \<open>interpolate\<close> has no check of the step or
  of the length of the series and no error of its own for them. On the
  empty series it ends with the \<open>IndexError\<close> of \<open>x_vals[0]\<close>; with a
  step of zero the loop that builds the grid never ends.
\<close>

theorem interpolate_invalid_configuration_counterexample:
  "interpolate reference_lib (DatetimeAxis []) [] 1 (minute 1) False ''interp1d'' None
     = Some (Inl IndexError)
   \<and> interpolate reference_lib (DatetimeAxis [minute 0, minute 1]) [1, 2] 1 0 False
       ''interp1d'' None
     = None"
  by (simp add: interpolate_def build_grid_def grid_loop_never_returns minute_def)

text \<open>
  Claim C4, amended: \<open>interpolate\<close> does not validate its configuration.
  For an empty series (of either kind of axis) it raises \<open>IndexError\<close>;
  for a step of zero and a non-empty datetime series whose first time does
  not exceed the last, it does not return.
\<close>

theorem interpolate_unchecked_configuration:
  assumes "interpolation_mode \<in> set [''bspline'', ''interp1d'', ''univ'']"
  shows "interpolate lib (DatetimeAxis []) y_vals order delta keep_old
             interpolation_mode max_interval = Some (Inl IndexError)
       \<and> interpolate lib (NumberAxis []) y_vals order delta keep_old
             interpolation_mode max_interval = Some (Inl IndexError)
       \<and> (x_vals \<noteq> [] \<and> hd x_vals \<le> last x_vals \<longrightarrow>
            interpolate lib (DatetimeAxis x_vals) y_vals order 0 keep_old
              interpolation_mode max_interval = None)"
  using assms
  by (simp add: interpolate_def build_grid_def grid_loop_never_returns)

theorem interpolate_unchecked_configuration_witness:
  "interpolate reference_lib (DatetimeAxis []) [1] 1 (minute 1) True ''univ'' (Some 5)
     = Some (Inl IndexError)
   \<and> interpolate reference_lib (NumberAxis []) [1] 1 (minute 1) True ''univ'' (Some 5)
     = Some (Inl IndexError)
   \<and> interpolate reference_lib (DatetimeAxis [minute 3, minute 4]) [1] 1 0 True ''univ''
        (Some 5)
     = None"
  using interpolate_unchecked_configuration
    [of "''univ''" reference_lib "[1]" 1 "minute 1" True "Some 5" "[minute 3, minute 4]"]
  by (simp add: minute_def)

text \<open>
  Claim C10: on a non-empty axis of plain numbers \<open>interpolate\<close> raises
  \<open>AssertionError\<close> whenever \<open>max_interval\<close> is not \<open>None\<close>.
\<close>

theorem interpolate_number_axis_max_interval:
  assumes "x_vals \<noteq> []" and "max_interval \<noteq> None"
  shows "interpolate lib (NumberAxis x_vals) y_vals order delta keep_old
           interpolation_mode max_interval = Some (Inl AssertionError)"
  using assms by (simp add: interpolate_def)

theorem interpolate_number_axis_max_interval_witness:
  "interpolate reference_lib (NumberAxis [0, 1, 2]) [5, 6, 7] 1 (minute 1) False
     ''interp1d'' (Some 5) = Some (Inl AssertionError)"
  using interpolate_number_axis_max_interval
    [of "[0, 1, 2]" "Some 5" reference_lib "[5, 6, 7]" 1 "minute 1" False "''interp1d''"]
  by simp

section \<open>Arrays and fitted functions\<close>

lemma length_np_assign [simp]: "length (np_assign msk as vals) = length as"
  by (induction msk as vals rule: np_assign.induct) auto

lemma length_in_interval [simp]: "length (in_interval t xs) = length xs"
  by (simp add: in_interval_def)

lemma nth_in_interval:
  "i < length xs \<Longrightarrow> in_interval t xs ! i \<longleftrightarrow> fst t \<le> xs ! i \<and> xs ! i \<le> snd t"
  by (simp add: in_interval_def)

lemma mask_select_Cons [simp]:
  "mask_select (m # msk) (x # xs) = (if m then x # mask_select msk xs else mask_select msk xs)"
  by (simp add: mask_select_def)

lemma mask_select_Nil [simp]: "mask_select [] xs = []" "mask_select msk [] = []"
  by (simp_all add: mask_select_def)





section \<open>The loop over the intervals\<close>








section \<open>The linear fit of the uncovered grid points\<close>

lemma identifyTimeIntervals_returns:
  "tms \<noteq> [] \<Longrightarrow> \<exists>ts. identifyTimeIntervals tms max_interval = Inr ts"
  by (cases max_interval) (auto simp: identifyTimeIntervals_def Let_def split: prod.splits)



section \<open>Evaluation on concrete series\<close>

lemmas eval_defs = interpolate_def build_grid_def interpolate_on_grid_def
  identifyTimeIntervals_def timedelta_minutes_def minute_def fill_gaps_def
  interval_fit_def np_select_def fit_method_def in_interval_def
  interpolated_indices_def timestamp_def reference_lib_def interp1d_linear_def
  univariate_smoothing_def lsq_line_def lsq_slope_def lsq_intercept_def lsq_residual_def
  Let_def upt_conv_Cons enumerate_eq_zip grid_loop.simps


section \<open>The result of the datetime branch\<close>




section \<open>A series of one sample\<close>





section \<open>The points of the series in the output\<close>







section \<open>What a call leaves of the store\<close>

lemma same_below_refl [simp]: "same_below n s s"
  by (simp add: same_below_def)

lemma same_below_trans:
  "same_below n s s1 \<Longrightarrow> same_below n s1 s2 \<Longrightarrow> same_below n s s2"
  by (auto simp: same_below_def)

lemma same_below_alloc:
  assumes "alloc ob s = (a, s')" and "n \<le> length s"
  shows "same_below n s s'" and "a = length s" and "length s' = Suc (length s)"
  using assms by (auto simp: alloc_def same_below_def nth_append)

lemma same_below_put:
  assumes "n \<le> a"
  shows "same_below n s (put a ob s)"
  using assms by (auto simp: put_def same_below_def)

lemma same_below_length: "same_below n s s' \<Longrightarrow> length s \<le> length s'"
  by (simp add: same_below_def)

lemma fold_segment_step_st_frame:
  assumes "fold (segment_step_st tms_a ia mi) is (start, s) = (start', s')"
    and "n \<le> ia"
  shows "same_below n s s'"
  using assms
proof (induction "is" arbitrary: start s)
  case Nil
  then show ?case by simp
next
  case (Cons i "is")
  obtain start1 s1 where st: "segment_step_st tms_a ia mi i (start, s) = (start1, s1)"
    by (cases "segment_step_st tms_a ia mi i (start, s)") auto
  have "same_below n s s1"
    using st same_below_put [OF Cons.prems(2)]
    by (auto simp: Let_def split: if_splits option.splits)
  moreover have "same_below n s1 s'"
    using Cons.IH [of start1 s1] Cons.prems st by simp
  ultimately show ?case by (rule same_below_trans)
qed

lemma identifyTimeIntervals_st_frame:
  assumes "identifyTimeIntervals_st s tms_a max_interval = (r, s')"
    and "n \<le> length s"
  shows "same_below n s s'"
proof (cases max_interval)
  case None
  with assms show ?thesis
    by (auto simp: identifyTimeIntervals_st_def alloc_def same_below_def nth_append
        split: if_splits)
next
  case (Some m)
  let ?s1 = "s @ [Intervals []]"
  obtain start s2 where f: "fold (segment_step_st tms_a (length s) (timedelta_minutes m))
      [1..<length (datetimes_of (?s1 ! tms_a))] (None, ?s1) = (start, s2)"
    by (metis surj_pair)
  have a: "same_below n s ?s1"
    using assms(2) by (auto simp: same_below_def nth_append)
  have b: "same_below n ?s1 s2"
    by (rule fold_segment_step_st_frame [OF f assms(2)])
  have ab: "same_below n s s2" using a b by (rule same_below_trans)
  have "same_below n s2 s'"
    using assms(1,2) Some f ab
    by (auto simp: identifyTimeIntervals_st_def alloc_def Let_def same_below_def nth_append
        split: if_splits)
  with ab show ?thesis by (rule same_below_trans)
qed

lemma grid_loop_st_frame:
  assumes "grid_loop_st delta x_a xi_a s = Some s'" and "n \<le> xi_a"
  shows "same_below n s s'"
proof -
  have "n \<le> xi_a \<longrightarrow> same_below n s s'"
  proof (rule grid_loop_st.raw_induct
      [where P = "\<lambda>delta x_a xi_a s s'. n \<le> xi_a \<longrightarrow> same_below n s s'", OF _ assms(1)],
      goal_cases)
    case (1 f delta x_a xi_a s s')
    show ?case
    proof
      assume n: "n \<le> xi_a"
      show "same_below n s s'"
      proof (cases "last (datetimes_of (s ! xi_a)) + delta \<le> last (datetimes_of (s ! x_a))")
        case True
        let ?s1 = "put xi_a (Datetimes (datetimes_of (s ! xi_a)
                                     @ [last (datetimes_of (s ! xi_a)) + delta])) s"
        from 1(2) True have "f delta x_a xi_a ?s1 = Some s'" by simp
        from 1(1) [OF this] n have "same_below n ?s1 s'" by simp
        with same_below_put [OF n] show ?thesis by (rule same_below_trans)
      next
        case False
        with 1(2) show ?thesis by simp
      qed
    qed
  qed
  with assms(2) show ?thesis by simp
qed

lemma fit_interval_st_frame:
  assumes "n \<le> yi_a" and "n \<le> length s"
  shows "case fit_interval_st lib interpolation_mode order x_a yv_a xi_a yi_a t
                (s, vi_a, vii_a) of
           Inl (e, s') \<Rightarrow> same_below n s s'
         | Inr (s', vi_a', vii_a') \<Rightarrow> same_below n s s'"
proof (cases "interval_fit lib interpolation_mode order (datetimes_of (s ! x_a))
             (values_of (s ! yv_a)) (datetimes_of (s ! xi_a)) t")
  case (Inl e)
  then show ?thesis by (cases e) simp_all
next
  case (Inr r)
  obtain inds inds_interp vals where r: "r = (inds, inds_interp, vals)"
    by (cases r) auto
  let ?s1 = "put yi_a (Values (np_assign inds_interp (values_of (s ! yi_a)) vals)) s"
  have 1: "same_below n s ?s1" by (rule same_below_put [OF assms(1)])
  have l1: "n \<le> length ?s1" using assms(2) by (simp add: put_def)
  let ?s2 = "?s1 @ [Flags (map2 (\<or>) (flags_of (?s1 ! vi_a)) inds)]"
  have 2: "same_below n ?s1 ?s2" using l1 by (auto simp: same_below_def nth_append)
  let ?s3 = "?s2 @ [Flags (map2 (\<or>) (flags_of (?s2 ! vii_a)) inds_interp)]"
  have 3: "same_below n ?s2 ?s3" using l1 by (auto simp: same_below_def nth_append)
  have "same_below n s ?s3"
    using 1 2 3 by (blast intro: same_below_trans)
  then show ?thesis using Inr r by (simp add: alloc_def Let_def)
qed

lemma fit_intervals_st_frame:
  assumes "n \<le> yi_a" and "n \<le> length s"
  shows "case fit_intervals_st lib interpolation_mode order x_a yv_a xi_a yi_a ts
                (s, vi_a, vii_a) of
           Inl (e, s') \<Rightarrow> same_below n s s'
         | Inr (s', vi_a', vii_a') \<Rightarrow> same_below n s s'"
  using assms(2)
proof (induction ts arbitrary: s vi_a vii_a)
  case Nil
  then show ?case by simp
next
  case (Cons t ts)
  from fit_interval_st_frame [OF assms(1) Cons.prems, of lib interpolation_mode order
      x_a yv_a xi_a t vi_a vii_a]
  show ?case
  proof (cases "fit_interval_st lib interpolation_mode order x_a yv_a xi_a yi_a t
                (s, vi_a, vii_a)")
    case (Inl r)
    with fit_interval_st_frame [OF assms(1) Cons.prems, of lib interpolation_mode order
      x_a yv_a xi_a t vi_a vii_a]
    show ?thesis by (cases r) simp
  next
    case (Inr st)
    obtain s1 a1 a2 where st: "st = (s1, a1, a2)" by (cases st) auto
    with Inr fit_interval_st_frame [OF assms(1) Cons.prems, of lib interpolation_mode order
      x_a yv_a xi_a t vi_a vii_a]
    have f1: "same_below n s s1" by simp
    then have "n \<le> length s1" using Cons.prems same_below_length by fastforce
    from Cons.IH [OF this, of a1 a2] f1 Inr st show ?thesis
      by (auto split: sum.splits intro: same_below_trans)
  qed
qed

lemma allocate_arrays_st_frame:
  assumes "allocate_arrays_st s x_a y_a keep_old xi_a0 = ((xi_a, yi_a, yv_a), s')"
    and "n \<le> length s"
  shows "same_below n s s'" and "n \<le> yi_a"
  using assms
  by (auto simp: allocate_arrays_st_def alloc_def Let_def same_below_def nth_append
      split: if_splits)

lemma return_lists_st_frame:
  assumes "return_lists_st s x_a xi_a yi_a y_interp = (r, s')"
    and "n \<le> length s" and "n \<le> yi_a"
  shows "same_below n s s'"
  using assms
  by (auto simp: return_lists_st_def alloc_def put_def Let_def same_below_def nth_append)

lemma interpolate_on_grid_st_frame:
  assumes "interpolate_on_grid_st lib s x_a y_a order keep_old interpolation_mode
             max_interval xi_a0 = (r, s')"
    and "n \<le> length s"
  shows "same_below n s s'"
proof -
  obtain xi_a yi_a yv_a s5 where
    al: "allocate_arrays_st s x_a y_a keep_old xi_a0 = ((xi_a, yi_a, yv_a), s5)"
    by (metis surj_pair)
  from allocate_arrays_st_frame [OF al assms(2)]
  have f5: "same_below n s s5" and ny: "n \<le> yi_a" by simp_all
  have l5: "n \<le> length s5" using f5 assms(2) same_below_length by fastforce
  obtain r6 s6 where it: "identifyTimeIntervals_st s5 x_a max_interval = (r6, s6)"
    by (metis surj_pair)
  have f6: "same_below n s5 s6" by (rule identifyTimeIntervals_st_frame [OF it l5])
  have l6: "n \<le> length s6" using f6 l5 same_below_length by fastforce
  have s6: "same_below n s s6" using f5 f6 by (rule same_below_trans)
  show ?thesis
  proof (cases r6)
    case (Inl e)
    with assms(1) al it have "s' = s6" by (simp add: interpolate_on_grid_st_def)
    with s6 show ?thesis by simp
  next
    case (Inr ti_a)
    let ?s7 = "s6 @ [Flags (replicate (length (datetimes_of (s6 ! x_a))) False)]"
    let ?s8 = "?s7 @ [Flags (replicate (length (datetimes_of (?s7 ! xi_a))) False)]"
    have f8: "same_below n s6 ?s8" using l6 by (auto simp: same_below_def nth_append)
    have l8: "n \<le> length ?s8" using l6 by simp
    have s8: "same_below n s ?s8" using s6 f8 by (rule same_below_trans)
    let ?L = "fit_intervals_st lib interpolation_mode order x_a yv_a xi_a yi_a
                (intervals_of (?s8 ! ti_a)) (?s8, length s6, Suc (length s6))"
    note loop = fit_intervals_st_frame [OF ny l8, of lib interpolation_mode order x_a yv_a
        xi_a "intervals_of (?s8 ! ti_a)" "length s6" "Suc (length s6)"]
    show ?thesis
    proof (cases ?L)
      case (Inl p)
      obtain e s9 where p: "p = (e, s9)" by (cases p) auto
      with Inl loop have "same_below n ?s8 s9" by simp
      moreover from assms(1) al it Inr Inl p have "s' = s9"
        by (simp add: interpolate_on_grid_st_def alloc_def Let_def)
      ultimately show ?thesis using s8 by (blast intro: same_below_trans)
    next
      case (Inr st)
      obtain s9 a1 a2 where st: "st = (s9, a1, a2)" by (cases st) auto
      with Inr loop have f9: "same_below n ?s8 s9" by simp
      then have l9: "n \<le> length s9" using l8 same_below_length by fastforce
      have s9: "same_below n s s9" using s8 f9 by (rule same_below_trans)
      show ?thesis
      proof (cases "fill_gaps lib (datetimes_of (s9 ! x_a)) (values_of (s9 ! yv_a))
                     (datetimes_of (s9 ! xi_a)) (values_of (s9 ! yi_a))
                     (flags_of (s9 ! a2))")
        case (Inl e)
        with assms(1) al it \<open>r6 = Inr ti_a\<close> Inr st have "s' = s9"
          by (simp add: interpolate_on_grid_st_def alloc_def Let_def)
        with s9 show ?thesis by simp
      next
        case fg: (Inr y_interp)
        obtain rr s10 where rl: "return_lists_st s9 x_a xi_a yi_a y_interp = (rr, s10)"
          by (metis surj_pair)
        from assms(1) al it \<open>r6 = Inr ti_a\<close> Inr st fg rl have "s' = s10"
          by (simp add: interpolate_on_grid_st_def alloc_def Let_def)
        with return_lists_st_frame [OF rl l9 ny] s9 show ?thesis
          by (blast intro: same_below_trans)
      qed
    qed
  qed
qed

lemma interpolate_st_frame:
  assumes "interpolate_st lib s x_a y_a order delta keep_old interpolation_mode
             max_interval = Some (r, s')"
  shows "same_below (length s) s s'"
proof (cases "interpolation_mode \<notin> set [''bspline'', ''interp1d'', ''univ'']")
  case True
  with assms show ?thesis by (simp add: interpolate_st_def)
next
  case mode: False
  show ?thesis
  proof (cases "\<exists>xs. s ! x_a = Numbers xs")
    case True
    then obtain xs where "s ! x_a = Numbers xs" by blast
    with assms mode show ?thesis
      by (auto simp: interpolate_st_def alloc_def Let_def same_below_def nth_append
          split: if_splits sum.splits prod.splits)
  next
    case False
    let ?s1 = "s @ [Datetimes [hd (datetimes_of (s ! x_a))]]"
    from False have eq: "interpolate_st lib s x_a y_a order delta keep_old
        interpolation_mode max_interval
      = (if datetimes_of (s ! x_a) = [] then Some (Inl IndexError, s)
         else (case grid_loop_st delta x_a (length s) ?s1 of
                 None \<Rightarrow> None
               | Some s2 \<Rightarrow>
                   Some (interpolate_on_grid_st lib s2 x_a y_a order keep_old
                           interpolation_mode max_interval (length s))))"
      using mode
      by (cases "s ! x_a") (simp_all add: interpolate_st_def alloc_def)
    show ?thesis
    proof (cases "datetimes_of (s ! x_a) = []")
      case True
      with assms eq show ?thesis by simp
    next
      case ne: False
      with assms eq obtain s2 where
        g: "grid_loop_st delta x_a (length s) ?s1 = Some s2"
        and r: "interpolate_on_grid_st lib s2 x_a y_a order keep_old interpolation_mode
                  max_interval (length s) = (r, s')"
        by (auto split: option.splits)
      have f1: "same_below (length s) s ?s1" by (auto simp: same_below_def nth_append)
      have f2: "same_below (length s) ?s1 s2"
        by (rule grid_loop_st_frame [OF g]) simp
      have s2: "same_below (length s) s s2" using f1 f2 by (rule same_below_trans)
      then have "length s \<le> length s2" by (rule same_below_length)
      from interpolate_on_grid_st_frame [OF r this] s2 show ?thesis
        by (blast intro: same_below_trans)
    qed
  qed
qed

lemmas store_eval_defs = interpolate_st_def interpolate_on_grid_st_def
  allocate_arrays_st_def return_lists_st_def identifyTimeIntervals_st_def
  alloc_def put_def grid_loop_st.simps nth_append

text \<open>
  Claim C9: a call of \<open>interpolate\<close> or of \<open>identifyTimeIntervals\<close>
  that returns or raises leaves the lists it was given as they were: in
  the store after the call, the objects at the addresses of \<open>x_vals\<close>
  and \<open>y_vals\<close> (of \<open>times\<close>) are the objects of the store before it.
\<close>

theorem calls_leave_input_lists_unchanged:
  assumes "x_a < length s" and "y_a < length s"
  shows "(\<forall>r s'. interpolate_st lib s x_a y_a order delta keep_old interpolation_mode
                   max_interval = Some (r, s')
             \<longrightarrow> s' ! x_a = s ! x_a \<and> s' ! y_a = s ! y_a)
       \<and> (\<forall>r s'. identifyTimeIntervals_st s x_a max_interval = (r, s')
             \<longrightarrow> s' ! x_a = s ! x_a)"
proof (intro conjI allI impI)
  fix r s'
  assume "interpolate_st lib s x_a y_a order delta keep_old interpolation_mode
            max_interval = Some (r, s')"
  from interpolate_st_frame [OF this] assms
  show "s' ! x_a = s ! x_a" "s' ! y_a = s ! y_a"
    by (simp_all add: same_below_def)
next
  fix r s'
  assume "identifyTimeIntervals_st s x_a max_interval = (r, s')"
  from identifyTimeIntervals_st_frame [OF this, of "length s"] assms
  show "s' ! x_a = s ! x_a" by (simp add: same_below_def)
qed

theorem calls_leave_input_lists_unchanged_witness:
  "(\<exists>r s'. interpolate_st reference_lib
               [Datetimes [minute 0, minute 2, minute 5], Values [1, 3, 6]] 0 1 1
               (minute 2) True ''interp1d'' (Some 2) = Some (Inr r, s')
          \<and> s' ! 0 = Datetimes [minute 0, minute 2, minute 5]
          \<and> s' ! 1 = Values [1, 3, 6]
          \<and> s' ! fst r = Datetimes [minute 0, minute 2, minute 4, minute 5]
          \<and> s' ! fst (snd r) = Values [1, 3, 5, 6]
          \<and> s' ! snd (snd r) = Indices [2])
   \<and> (\<exists>r s'. identifyTimeIntervals_st
               [Datetimes [minute 0, minute 2, minute 5], Values [1, 3, 6 :: rat]] 0
               (Some 2) = (Inr r, s')
          \<and> s' ! 0 = Datetimes [minute 0, minute 2, minute 5]
          \<and> s' ! r = Intervals [(minute 0, minute 2)])"
proof -
  let ?s = "[Datetimes [minute 0, minute 2, minute 5], Values [1, 3, 6 :: rat]]"
  obtain r s' where
    i: "interpolate_st reference_lib ?s 0 1 1 (minute 2) True ''interp1d'' (Some 2)
          = Some (Inr r, s')"
    and res: "s' ! fst r = Datetimes [minute 0, minute 2, minute 4, minute 5]"
      "s' ! fst (snd r) = Values [1, 3, 5, 6]" "s' ! snd (snd r) = Indices [2]"
    by (simp add: store_eval_defs eval_defs)
  obtain r2 s2 where
    t: "identifyTimeIntervals_st ?s 0 (Some 2) = (Inr r2, s2)"
    and res2: "s2 ! r2 = Intervals [(minute 0, minute 2)]"
    by (simp add: store_eval_defs eval_defs)
  from calls_leave_input_lists_unchanged
    [of 0 ?s 1 reference_lib 1 "minute 2" True "''interp1d''" "Some 2"] i t
  have "s' ! 0 = ?s ! 0" "s' ! 1 = ?s ! 1" "s2 ! 0 = ?s ! 0"
    by auto
  with i t res res2 show ?thesis by auto
qed

end
